theory Spec2Isabelle
  imports Main "HOL-Library.Sublist"
begin

section \<open>Exceptions\<close>

text \<open>
  Every \<^verbatim>\<open>raise\<close> of \<^verbatim>\<open>backend/server.py\<close> is a value. An \<^verbatim>\<open>HTTPException\<close> carries its
  status code and its detail; a detail built as \<^verbatim>\<open>f"prefix{str(e)}"\<close> keeps the prefix and
  the exception \<^verbatim>\<open>e\<close> it wraps. \<open>Exception\<close> stands for any other Python exception, by the
  name of its class. A handler returns \<open>Inl e\<close> when it raises \<open>e\<close>; the framework
  answers an exception that is not an \<^verbatim>\<open>HTTPException\<close> with status 500.
\<close>

datatype exn =
    HTTPException nat detail
  | Exception string
and detail =
    Detail string
  | DetailStr string exn

fun status_code :: "exn \<Rightarrow> nat" where
  "status_code (HTTPException c d) = c"
| "status_code (Exception n) = 500"

section \<open>Python strings\<close>

text \<open>
  A \<^verbatim>\<open>str\<close> is a \<open>string\<close>; the model is exact on ASCII text. Outside ASCII it is
  not: \<^verbatim>\<open>strip()\<close> also removes Unicode white space, \<^verbatim>\<open>isupper()\<close> and \<^verbatim>\<open>lower()\<close> know
  every cased character, and \<^verbatim>\<open>len()\<close> counts code points where \<open>length\<close> counts bytes.
  \<open>py_strip\<close> is
  \<^verbatim>\<open>str.strip()\<close>, \<open>py_lower\<close> is \<^verbatim>\<open>str.lower()\<close>, \<open>py_isupper\<close> is \<^verbatim>\<open>str.isupper()\<close>
  (no lower-case letter and at least one upper-case letter), \<open>py_contains sub s\<close> is
  \<^verbatim>\<open>sub in s\<close>, \<open>py_split sep s\<close> is \<^verbatim>\<open>s.split(sep)\<close> and \<open>py_replace old new s\<close> is
  \<^verbatim>\<open>s.replace(old, new)\<close>, both for a non-empty separator, scanning from the left.
  \<^verbatim>\<open>startswith\<close> and \<^verbatim>\<open>endswith\<close> are \<open>prefix\<close> and \<open>suffix\<close>.
\<close>

definition nl :: char where
  "nl = CHR 0x0A"

definition whitespace :: "char list" where
  "whitespace = [CHR 0x09, CHR 0x0A, CHR 0x0B, CHR 0x0C, CHR 0x0D,
                 CHR 0x1C, CHR 0x1D, CHR 0x1E, CHR 0x1F, CHR 0x20]"

definition is_space :: "char \<Rightarrow> bool" where
  "is_space c = (c \<in> set whitespace)"

definition upper_letters :: string where
  "upper_letters = ''ABCDEFGHIJKLMNOPQRSTUVWXYZ''"

definition lower_letters :: string where
  "lower_letters = ''abcdefghijklmnopqrstuvwxyz''"

definition py_strip :: "string \<Rightarrow> string" where
  "py_strip s = rev (dropWhile is_space (rev (dropWhile is_space s)))"

definition lower_char :: "char \<Rightarrow> char" where
  "lower_char c = (case map_of (zip upper_letters lower_letters) c of
                     None \<Rightarrow> c | Some d \<Rightarrow> d)"

definition py_lower :: "string \<Rightarrow> string" where
  "py_lower s = map lower_char s"

definition py_isupper :: "string \<Rightarrow> bool" where
  "py_isupper s = (list_ex (\<lambda>c. c \<in> set upper_letters) s
                   \<and> \<not> list_ex (\<lambda>c. c \<in> set lower_letters) s)"

fun py_contains :: "string \<Rightarrow> string \<Rightarrow> bool" where
  "py_contains sub [] = (sub = [])"
| "py_contains sub (c # cs) = (prefix sub (c # cs) \<or> py_contains sub cs)"

function py_split :: "string \<Rightarrow> string \<Rightarrow> string list" where
  "py_split sep [] = [[]]"
| "py_split sep (c # cs) =
     (if sep \<noteq> [] \<and> prefix sep (c # cs)
      then [] # py_split sep (drop (length sep) (c # cs))
      else (case py_split sep cs of
              [] \<Rightarrow> [[c]]
            | l # ls \<Rightarrow> (c # l) # ls))"
  by pat_completeness auto
termination
  by (relation "measure (\<lambda>(sep, s). length s)") auto

function py_replace :: "string \<Rightarrow> string \<Rightarrow> string \<Rightarrow> string" where
  "py_replace old new [] = []"
| "py_replace old new (c # cs) =
     (if old \<noteq> [] \<and> prefix old (c # cs)
      then new @ py_replace old new (drop (length old) (c # cs))
      else c # py_replace old new cs)"
  by pat_completeness auto
termination
  by (relation "measure (\<lambda>(old, new, s). length s)") auto

definition str_truthy :: "string option \<Rightarrow> bool" where
  "str_truthy v = (case v of None \<Rightarrow> False | Some s \<Rightarrow> s \<noteq> [])"

section \<open>Data model\<close>

record User =
  uid :: string
  firstName :: string
  lastName :: string
  email :: string
  institution :: string
  department :: string
  password_hash :: string
  api_key :: "string option"
  newsletter :: bool
  created_at :: int

record UserSignup =
  su_firstName :: string
  su_lastName :: string
  su_email :: string
  su_institution :: string
  su_department :: string
  su_password :: string
  su_newsletter :: bool

record UserLogin =
  li_email :: string
  li_password :: string

record UserResponse =
  ur_id :: string
  ur_firstName :: string
  ur_lastName :: string
  ur_email :: string
  ur_institution :: string
  ur_department :: string
  hasApiKey :: bool

text \<open>
  The claims of a session token as \<^verbatim>\<open>create_jwt_token\<close> writes them, and the token: the
  claims and the signature \<^verbatim>\<open>jwt.encode\<close> computed over them. Times are whole seconds.
  The type holds the tokens of this shape only: a string that is no token, and a token
  with other claims, are not values of it.
\<close>

record payload =
  p_user_id :: string
  p_email :: string
  p_exp :: int

record jwt =
  jwt_claims :: payload
  jwt_sig :: string

record AuthResponse =
  success :: bool
  token :: jwt
  user :: UserResponse

record PDFExtractionResult =
  per_id :: string
  filename :: string
  subject_names :: "string list"
  lecture_topics :: "string list"
  lecture_focus_mapping :: "(string \<times> string list) list"
  extracted_at :: int

record LessonPlanRequest =
  subject_name :: string
  lecture_topic :: string
  focus_topic :: "string option"
  blooms_taxonomy :: string
  aqf_level :: string
  lesson_duration :: string

record LessonPlan =
  lp_id :: string
  request_data :: LessonPlanRequest
  content :: string
  generated_at :: int

text \<open>The in-memory user store \<^verbatim>\<open>users_db\<close>: email to user record.\<close>

type_synonym users_db = "string \<rightharpoonup> User"

text \<open>
  What the process is started with: the two environment variables the code reads, and the
  two hash functions it calls, \<^verbatim>\<open>hashlib.sha256(s.encode()).hexdigest()\<close> and the HS256
  signature of PyJWT under a key. The hash functions are parameters: the theorems hold for
  every choice of them.
\<close>

record sys =
  JWT_SECRET :: string
  EMERGENT_LLM_KEY :: "string option"
  sha256_hexdigest :: "string \<Rightarrow> string"
  hs256 :: "string \<Rightarrow> payload \<Rightarrow> string"

definition JWT_EXPIRATION_HOURS :: int where
  "JWT_EXPIRATION_HOURS = 24"

section \<open>The LLM client\<close>

record LlmChat =
  chat_api_key :: string
  chat_session_id :: string
  chat_system_message :: string
  chat_model :: "string \<times> string"

definition new_chat :: "string \<Rightarrow> string \<Rightarrow> LlmChat" where
  "new_chat k session =
     \<lparr>chat_api_key = k, chat_session_id = session,
      chat_system_message =
        ''You are an expert educational content analyzer and lesson plan generator.'',
      chat_model = (''gemini'', ''gemini-2.0-flash'')\<rparr>"

definition get_llm_chat :: "sys \<Rightarrow> string \<Rightarrow> exn + LlmChat" where
  "get_llm_chat S session =
     (if \<not> str_truthy (EMERGENT_LLM_KEY S)
      then Inl (HTTPException 500 (Detail ''LLM API key not configured''))
      else Inr (new_chat (the (EMERGENT_LLM_KEY S)) session))"

definition get_user_llm_chat :: "sys \<Rightarrow> string \<Rightarrow> string option \<Rightarrow> exn + LlmChat" where
  "get_user_llm_chat S session k =
     (if \<not> str_truthy k then get_llm_chat S session
      else Inr (new_chat (the k) session))"

section \<open>Authentication helpers\<close>

definition hash_password :: "sys \<Rightarrow> string \<Rightarrow> string" where
  "hash_password S password = sha256_hexdigest S password"

definition verify_password :: "sys \<Rightarrow> string \<Rightarrow> string \<Rightarrow> bool" where
  "verify_password S password hashed = (sha256_hexdigest S password = hashed)"

text \<open>
  \<^verbatim>\<open>jwt.encode\<close> and \<^verbatim>\<open>jwt.decode\<close> of PyJWT, for the one algorithm the code allows:
  decoding checks the signature first, then the expiry (a token whose \<^verbatim>\<open>exp\<close> is not after
  the clock is expired).
\<close>

datatype jwt_error = ExpiredSignatureError | InvalidTokenError

definition jwt_encode :: "sys \<Rightarrow> payload \<Rightarrow> string \<Rightarrow> jwt" where
  "jwt_encode S p k = \<lparr>jwt_claims = p, jwt_sig = hs256 S k p\<rparr>"

definition jwt_decode :: "sys \<Rightarrow> int \<Rightarrow> jwt \<Rightarrow> string \<Rightarrow> jwt_error + payload" where
  "jwt_decode S now t k =
     (if jwt_sig t \<noteq> hs256 S k (jwt_claims t) then Inl InvalidTokenError
      else if p_exp (jwt_claims t) \<le> now then Inl ExpiredSignatureError
      else Inr (jwt_claims t))"

definition create_jwt_token :: "sys \<Rightarrow> int \<Rightarrow> User \<Rightarrow> jwt" where
  "create_jwt_token S now user_data =
     jwt_encode S
       \<lparr>p_user_id = uid user_data, p_email = email user_data,
        p_exp = now + JWT_EXPIRATION_HOURS * 3600\<rparr>
       (JWT_SECRET S)"

definition verify_jwt_token :: "sys \<Rightarrow> int \<Rightarrow> jwt \<Rightarrow> exn + payload" where
  "verify_jwt_token S now t =
     (case jwt_decode S now t (JWT_SECRET S) of
        Inr p \<Rightarrow> Inr p
      | Inl ExpiredSignatureError \<Rightarrow> Inl (HTTPException 401 (Detail ''Token has expired''))
      | Inl InvalidTokenError \<Rightarrow> Inl (HTTPException 401 (Detail ''Invalid token'')))"

definition get_current_user :: "sys \<Rightarrow> users_db \<Rightarrow> int \<Rightarrow> jwt \<Rightarrow> exn + User" where
  "get_current_user S users now credentials =
     (case verify_jwt_token S now credentials of
        Inl e \<Rightarrow> Inl e
      | Inr p \<Rightarrow>
          (case users (p_email p) of
             None \<Rightarrow> Inl (HTTPException 401 (Detail ''User not found''))
           | Some u \<Rightarrow> Inr u))"

section \<open>Authentication routes\<close>

text \<open>
  One call of \<^verbatim>\<open>signup\<close>: the request body, the uuid and the creation time the \<^verbatim>\<open>User\<close>
  model draws, and the clock read by \<^verbatim>\<open>create_jwt_token\<close>.
\<close>

record signup_call =
  sc_req :: UserSignup
  sc_uuid :: string
  sc_created :: int
  sc_now :: int

definition new_user :: "sys \<Rightarrow> signup_call \<Rightarrow> User" where
  "new_user S c =
     \<lparr>uid = sc_uuid c,
      firstName = su_firstName (sc_req c),
      lastName = su_lastName (sc_req c),
      email = su_email (sc_req c),
      institution = su_institution (sc_req c),
      department = su_department (sc_req c),
      password_hash = hash_password S (su_password (sc_req c)),
      api_key = None,
      newsletter = su_newsletter (sc_req c),
      created_at = sc_created c\<rparr>"

definition user_response :: "User \<Rightarrow> UserResponse" where
  "user_response u =
     \<lparr>ur_id = uid u, ur_firstName = firstName u, ur_lastName = lastName u,
      ur_email = email u, ur_institution = institution u,
      ur_department = department u, hasApiKey = str_truthy (api_key u)\<rparr>"

definition signup :: "sys \<Rightarrow> users_db \<Rightarrow> signup_call \<Rightarrow> (exn + AuthResponse) \<times> users_db" where
  "signup S users c =
     (if users (su_email (sc_req c)) \<noteq> None
      then (Inl (HTTPException 400 (Detail ''Email already registered'')), users)
      else
        let u = new_user S c;
            users' = users(email u \<mapsto> u);
            t = create_jwt_token S (sc_now c) u
        in (Inr \<lparr>success = True, token = t, user = user_response u\<rparr>, users'))"

definition login :: "sys \<Rightarrow> users_db \<Rightarrow> int \<Rightarrow> UserLogin \<Rightarrow> exn + AuthResponse" where
  "login S users now login_data =
     (case users (li_email login_data) of
        None \<Rightarrow> Inl (HTTPException 401 (Detail ''Invalid email or password''))
      | Some u \<Rightarrow>
          if \<not> verify_password S (li_password login_data) (password_hash u)
          then Inl (HTTPException 401 (Detail ''Invalid email or password''))
          else Inr \<lparr>success = True, token = create_jwt_token S now u,
                    user = user_response u\<rparr>)"

text \<open>
  \<^verbatim>\<open>validate_api_key\<close>: \<open>send\<close> is \<^verbatim>\<open>chat.send_message\<close> of this call, \<open>session\<close> the uuid of
  the chat session. Whatever is raised inside the \<^verbatim>\<open>try\<close> becomes the 400 of the
  \<^verbatim>\<open>except\<close> clause. The store is updated under the email of the current user.
\<close>

definition api_key_rejected :: exn where
  "api_key_rejected =
     HTTPException 400 (Detail ''Invalid API key or failed to connect to Gemini API'')"

definition validate_api_key ::
  "sys \<Rightarrow> (LlmChat \<Rightarrow> string \<Rightarrow> exn + string) \<Rightarrow> string \<Rightarrow> users_db \<Rightarrow> string \<Rightarrow> User
     \<Rightarrow> (exn + bool \<times> string) \<times> users_db" where
  "validate_api_key S send session users apiKey current_user =
     (case get_user_llm_chat S session (Some apiKey) of
        Inl e \<Rightarrow> (Inl api_key_rejected, users)
      | Inr chat \<Rightarrow>
          (case send chat ''Hello'' of
             Inl e \<Rightarrow> (Inl api_key_rejected, users)
           | Inr response \<Rightarrow>
               (case users (email current_user) of
                  None \<Rightarrow> (Inl api_key_rejected, users)
                | Some u \<Rightarrow>
                    (Inr (True, ''API key validated and saved successfully''),
                     users(email current_user \<mapsto> u\<lparr>api_key := Some apiKey\<rparr>)))))"

definition get_profile :: "User \<Rightarrow> UserResponse" where
  "get_profile current_user = user_response current_user"

text \<open>A run of signups, one after the other, with the answer of each.\<close>

fun run_signups ::
  "sys \<Rightarrow> users_db \<Rightarrow> signup_call list \<Rightarrow> (exn + AuthResponse) list \<times> users_db" where
  "run_signups S users [] = ([], users)"
| "run_signups S users (c # cs) =
     (case signup S users c of
        (r, users') \<Rightarrow>
          (case run_signups S users' cs of
             (rs, users'') \<Rightarrow> (r # rs, users'')))"

definition call_email :: "signup_call \<Rightarrow> string" where
  "call_email c = su_email (sc_req c)"

definition mac_valid :: "sys \<Rightarrow> jwt \<Rightarrow> bool" where
  "mac_valid S t = (jwt_sig t = hs256 S (JWT_SECRET S) (jwt_claims t))"

definition succeeded :: "exn + 'a \<Rightarrow> bool" where
  "succeeded r = (case r of Inl e \<Rightarrow> False | Inr v \<Rightarrow> True)"

section \<open>Prompts\<close>

text \<open>
  The two f-strings of the source, line by line: every line of the literal is indented by
  eight blanks, the literal opens with a newline and closes with the indentation.
\<close>

definition indent :: string where
  "indent = ''        ''"

definition prompt_text :: "string list \<Rightarrow> string" where
  "prompt_text ls = nl # concat (map (\<lambda>l. indent @ l @ [nl]) ls) @ indent"

definition extraction_prompt :: "string \<Rightarrow> string" where
  "extraction_prompt pdf_text = prompt_text
     [''Analyze the following academic subject outline PDF content and extract the required information in JSON format.'',
      '''',
      ''PDF Content:'',
      take 8000 pdf_text @ ''  # Limit to first 8000 characters'',
      '''',
      ''Please extract and return ONLY a JSON object with the following structure:'',
      ''{'',
      ''    \"subject_names\": [\"list of subject names found\"],'',
      ''    \"lecture_topics\": [\"list of lecture topics from timetable of activities\"],'',
      ''    \"lecture_focus_mapping\": {'',
      ''        \"Lecture Topic 1\": [\"focus topic 1.1\", \"focus topic 1.2\"],'',
      ''        \"Lecture Topic 2\": [\"focus topic 2.1\", \"focus topic 2.2\"],'',
      ''        \"etc\": [\"etc\"]'',
      ''    }'',
      ''}'',
      '''',
      ''Instructions:'',
      ''1. Look for subject names in headers, titles, or course information'',
      ''2. Find lecture topics in the timetable of activities section'',
      ''3. For each lecture topic, identify its corresponding focus topics (subtopics/subdivisions mentioned for that specific lecture/week)'',
      ''4. Create a mapping where each lecture topic maps to its specific focus topics only'',
      ''5. If a lecture topic has no specific focus topics, map it to an empty array []'',
      ''6. Return clean, readable names without extra formatting'',
      ''7. Return ONLY the JSON object, no other text'']"

definition generation_prompt :: "LessonPlanRequest \<Rightarrow> string" where
  "generation_prompt request = prompt_text
     [''Create a detailed lesson plan based on the following parameters:'',
      '''',
      ''Subject: '' @ subject_name request,
      ''Lecture Topic: '' @ lecture_topic request,
      ''Focus Topic: '' @ (if str_truthy (focus_topic request) then the (focus_topic request)
                           else ''General coverage of the lecture topic''),
      ''Bloom's Taxonomy Level: '' @ blooms_taxonomy request,
      ''AQF Level: '' @ aqf_level request,
      ''Duration: '' @ lesson_duration request,
      '''',
      ''Please create a comprehensive lesson plan with professional formatting. Use proper headings, bullet points, and structure. DO NOT use markdown symbols like #, *, or other formatting characters. Format it as follows:'',
      '''',
      ''LEARNING OBJECTIVES'',
      ''- Clear, measurable objectives aligned with the '' @ blooms_taxonomy request
        @ '' level of Bloom's taxonomy'',
      '''',
      ''LEARNING OUTCOMES'',
      ''- What students will achieve, appropriate for '' @ aqf_level request,
      '''',
      ''PRE-REQUISITES'',
      ''- Required knowledge or skills'',
      '''',
      ''MATERIALS AND RESOURCES'',
      ''- What's needed for the lesson'',
      '''',
      ''LESSON STRUCTURE ('' @ lesson_duration request @ '')'',
      '''',
      ''Introduction/Hook (X minutes)'',
      ''- Engage students activities'',
      '''',
      ''Main Content Delivery (X minutes)'',
      ''- Explanation and demonstration activities'',
      '''',
      ''Active Learning Activities (X minutes)'',
      ''- Hands-on, discussion, and practice activities'',
      '''',
      ''Assessment/Evaluation (X minutes)'',
      ''- Formative assessment aligned with Bloom's level'',
      '''',
      ''Conclusion/Summary (X minutes)'',
      ''- Wrap-up activities'',
      '''',
      ''ASSESSMENT CRITERIA'',
      ''- How student understanding will be measured'',
      '''',
      ''EXTENSION ACTIVITIES'',
      ''- For advanced students'',
      '''',
      ''DIFFERENTIATION STRATEGIES'',
      ''- For diverse learning needs'',
      '''',
      ''Focus Area: '' @ (if str_truthy (focus_topic request)
                         then ''Emphasize '' @ the (focus_topic request) @ '' within the broader ''
                              @ lecture_topic request @ '' context''
                         else ''Provide comprehensive coverage of '' @ lecture_topic request),
      '''',
      ''Ensure the content is:'',
      ''- Age and level appropriate for '' @ aqf_level request,
      ''- '' @ (if str_truthy (focus_topic request)
               then ''Focused specifically on '' @ [CHR 0x27] @ the (focus_topic request) @ [CHR 0x27]
               else ''Comprehensively covering '' @ [CHR 0x27] @ lecture_topic request @ [CHR 0x27]),
      ''- Designed to achieve '' @ blooms_taxonomy request @ '' level cognitive skills'',
      ''- Realistic for the '' @ lesson_duration request @ '' timeframe'',
      ''- Engaging and interactive'',
      ''- Professionally formatted without markdown symbols'',
      '''',
      ''Format the response as clean, professional text with clear section headings in ALL CAPS and proper bullet points using hyphens.'']"

section \<open>Extracting the text of a PDF\<close>

text \<open>
  The file system is a map from path to content. \<open>reader\<close> is \<^verbatim>\<open>PdfReader\<close>: applied to the
  content of a file it raises, or gives the pages; a page is \<open>None\<close> when its
  \<^verbatim>\<open>extract_text()\<close> raises, and its text otherwise. \<open>read_pages\<close> is the loop over the
  pages, \<open>text\<close> its accumulator.
\<close>

type_synonym files = "string \<rightharpoonup> string"

fun read_pages :: "string option list \<Rightarrow> string \<Rightarrow> string" where
  "read_pages [] text = text"
| "read_pages (None # pages) text = read_pages pages text"
| "read_pages (Some page_text # pages) text =
     (if py_strip page_text \<noteq> [] then read_pages pages (text @ page_text @ [nl])
      else read_pages pages text)"

definition no_readable_text :: exn where
  "no_readable_text = HTTPException 400 (Detail
     ''No readable text found in the PDF. Please ensure the PDF contains text content and is not a scanned image.'')"

definition unable_to_process :: "exn \<Rightarrow> exn" where
  "unable_to_process e = HTTPException 400 (DetailStr
     ''Unable to process this PDF format. Please try with a different PDF file or ensure the PDF contains readable text. Error: '' e)"

definition extract_text_from_pdf ::
  "(string \<Rightarrow> exn + string option list) \<Rightarrow> files \<Rightarrow> string \<Rightarrow> exn + string" where
  "extract_text_from_pdf reader fs file_path =
     (case (case fs file_path of
              None \<Rightarrow> Inl (Exception ''FileNotFoundError'')
            | Some bytes \<Rightarrow> reader bytes) of
        Inl (HTTPException c d) \<Rightarrow> Inl (HTTPException c d)
      | Inl (Exception n) \<Rightarrow> Inl (unable_to_process (Exception n))
      | Inr pages \<Rightarrow>
          let text = read_pages pages []
          in if py_strip text = [] then Inl no_readable_text else Inr text)"

section \<open>The curriculum extraction\<close>

text \<open>
  What \<^verbatim>\<open>json.loads\<close> returns. A \<open>JObj\<close> lists the items of a \<^verbatim>\<open>dict\<close>, one per key;
  \<open>dict_get\<close> is \<^verbatim>\<open>dict.get\<close> with a default, \<open>truthy\<close> the truth value Python gives
  the value.
\<close>

datatype json =
    JNull
  | JBool bool
  | JNum int
  | JStr string
  | JArr "json list"
  | JObj "(string \<times> json) list"

fun truthy :: "json \<Rightarrow> bool" where
  "truthy JNull = False"
| "truthy (JBool b) = b"
| "truthy (JNum n) = (n \<noteq> 0)"
| "truthy (JStr s) = (s \<noteq> [])"
| "truthy (JArr xs) = (xs \<noteq> [])"
| "truthy (JObj kv) = (kv \<noteq> [])"

definition dict_get :: "(string \<times> json) list \<Rightarrow> string \<Rightarrow> json \<Rightarrow> json" where
  "dict_get kv k d = (case map_of kv k of None \<Rightarrow> d | Some v \<Rightarrow> v)"

fun is_dict :: "json \<Rightarrow> bool" where
  "is_dict (JObj kv) = True"
| "is_dict v = False"

text \<open>
  The validation the \<^verbatim>\<open>PDFExtractionResult\<close> model applies to its fields, from their
  annotations: \<^verbatim>\<open>List[str]\<close> takes an array of strings, \<^verbatim>\<open>Dict[str, List[str]]\<close> an object
  whose values are arrays of strings; anything else is a \<^verbatim>\<open>ValidationError\<close>. (The
  validation is pydantic's; an element that is not a string is refused here, as pydantic 2
  does.)
\<close>

fun as_str :: "json \<Rightarrow> string option" where
  "as_str (JStr s) = Some s"
| "as_str v = None"

fun validate_str_list :: "json \<Rightarrow> string list option" where
  "validate_str_list (JArr xs) = those (map as_str xs)"
| "validate_str_list v = None"

fun validate_mapping :: "json \<Rightarrow> (string \<times> string list) list option" where
  "validate_mapping (JObj kv) =
     those (map (\<lambda>(k, v). map_option (Pair k) (validate_str_list v)) kv)"
| "validate_mapping v = None"

text \<open>
  What one call of \<^verbatim>\<open>upload_pdf\<close> meets outside the code: the name of the temporary file
  (\<open>None\<close> when creating it raises), whether copying the upload into it completes, the PDF
  reader, the uuid of the chat session, the answer of \<^verbatim>\<open>chat.send_message\<close>, \<^verbatim>\<open>json.loads\<close>,
  the uuid and the clock the result draws, and whether the database takes the insert.
\<close>

record upload_env =
  ue_tmp_name :: "string option"
  ue_copy_ok :: bool
  ue_pdf_reader :: "string \<Rightarrow> exn + string option list"
  ue_session :: string
  ue_send :: "LlmChat \<Rightarrow> string \<Rightarrow> exn + string"
  ue_json_loads :: "string \<Rightarrow> json option"
  ue_uuid :: string
  ue_now :: int
  ue_insert_ok :: bool

record UploadFile =
  up_filename :: string
  up_content :: string

definition clean_response :: "string \<Rightarrow> string" where
  "clean_response response =
     (let response_text = py_strip response
      in if prefix ''```json'' response_text
         then py_strip (py_replace ''```'' [] (py_replace ''```json'' [] response_text))
         else if prefix ''```'' response_text
         then py_strip (py_replace ''```'' [] response_text)
         else response_text)"

text \<open>
  Lines 550 to 588 of \<^verbatim>\<open>upload_pdf\<close>: from the answer of the LLM to the stored result.
  \<open>coll\<close> is the collection \<^verbatim>\<open>pdf_extractions\<close>.
\<close>

definition process_response ::
  "upload_env \<Rightarrow> string \<Rightarrow> PDFExtractionResult list \<Rightarrow> string
     \<Rightarrow> (exn + PDFExtractionResult) \<times> PDFExtractionResult list" where
  "process_response E fname coll response =
     (case ue_json_loads E (clean_response response) of
        None \<Rightarrow>
          (Inl (HTTPException 500
                  (DetailStr ''Failed to parse LLM response: '' (Exception ''JSONDecodeError''))),
           coll)
      | Some (JObj kv) \<Rightarrow>
          let subject_names = dict_get kv ''subject_names'' (JArr []);
              lecture_topics = dict_get kv ''lecture_topics'' (JArr []);
              lecture_focus_mapping = dict_get kv ''lecture_focus_mapping'' (JObj [])
          in if \<not> (truthy subject_names \<or> truthy lecture_topics)
             then (Inl (HTTPException 400
                          (Detail ''Could not extract meaningful data from PDF'')), coll)
             else
               let lecture_focus_mapping =
                     (if \<not> is_dict lecture_focus_mapping then JObj []
                      else lecture_focus_mapping)
               in (case (validate_str_list subject_names, validate_str_list lecture_topics,
                         validate_mapping lecture_focus_mapping) of
                     (Some sn, Some lt, Some m) \<Rightarrow>
                       let result =
                             \<lparr>per_id = ue_uuid E, filename = fname, subject_names = sn,
                              lecture_topics = lt, lecture_focus_mapping = m,
                              extracted_at = ue_now E\<rparr>
                       in if ue_insert_ok E then (Inr result, coll @ [result])
                          else (Inl (Exception ''PyMongoError''), coll)
                   | _ \<Rightarrow> (Inl (Exception ''ValidationError''), coll))
      | Some v \<Rightarrow> (Inl (Exception ''AttributeError''), coll))"

text \<open>The body of the \<^verbatim>\<open>try\<close> of \<^verbatim>\<open>upload_pdf\<close> once the upload is in the temporary file.\<close>

definition upload_body ::
  "sys \<Rightarrow> upload_env \<Rightarrow> files \<Rightarrow> PDFExtractionResult list \<Rightarrow> string \<Rightarrow> string \<Rightarrow> User
     \<Rightarrow> (exn + PDFExtractionResult) \<times> PDFExtractionResult list" where
  "upload_body S E fs coll fname temp_file_path current_user =
     (case extract_text_from_pdf (ue_pdf_reader E) fs temp_file_path of
        Inl e \<Rightarrow> (Inl e, coll)
      | Inr pdf_text \<Rightarrow>
          if py_strip pdf_text = []
          then (Inl (HTTPException 400 (Detail ''No text found in PDF'')), coll)
          else
            (case get_user_llm_chat S (ue_session E) (api_key current_user) of
               Inl e \<Rightarrow> (Inl e, coll)
             | Inr chat \<Rightarrow>
                 (case ue_send E chat (extraction_prompt pdf_text) of
                    Inl e \<Rightarrow> (Inl e, coll)
                  | Inr response \<Rightarrow> process_response E fname coll response)))"

definition upload_failed :: "exn \<Rightarrow> exn" where
  "upload_failed e = HTTPException 500 (DetailStr ''Failed to process PDF: '' e)"

text \<open>
  \<^verbatim>\<open>upload_pdf\<close>. The \<^verbatim>\<open>except Exception\<close> clause turns whatever the body raised into a 500;
  the \<^verbatim>\<open>finally\<close> clause unlinks the temporary file. When the copy raises,
  \<^verbatim>\<open>temp_file_path\<close> was never assigned and the \<^verbatim>\<open>finally\<close> clause itself raises.
\<close>

definition upload_pdf ::
  "sys \<Rightarrow> upload_env \<Rightarrow> files \<Rightarrow> PDFExtractionResult list \<Rightarrow> UploadFile \<Rightarrow> User
     \<Rightarrow> (exn + PDFExtractionResult) \<times> files \<times> PDFExtractionResult list" where
  "upload_pdf S E fs coll file current_user =
     (if \<not> suffix ''.pdf'' (py_lower (up_filename file))
      then (Inl (HTTPException 400 (Detail ''File must be a PDF'')), fs, coll)
      else
        (case ue_tmp_name E of
           None \<Rightarrow> (Inl (upload_failed (Exception ''OSError'')), fs, coll)
         | Some temp_file_path \<Rightarrow>
             if \<not> ue_copy_ok E
             then (Inl (Exception ''UnboundLocalError''), fs(temp_file_path \<mapsto> []), coll)
             else
               let fs' = fs(temp_file_path \<mapsto> up_content file)
               in (case upload_body S E fs' coll (up_filename file) temp_file_path
                          current_user of
                     (r, coll') \<Rightarrow>
                       ((case r of Inl e \<Rightarrow> Inl (upload_failed e) | Inr result \<Rightarrow> Inr result),
                        (if fs' temp_file_path \<noteq> None then fs'(temp_file_path := None)
                         else fs'),
                        coll'))))"

section \<open>Generating a lesson plan\<close>

record generate_env =
  ge_session :: string
  ge_send :: "LlmChat \<Rightarrow> string \<Rightarrow> exn + string"
  ge_uuid :: string
  ge_now :: int
  ge_insert_ok :: bool

definition generation_failed :: "exn \<Rightarrow> exn" where
  "generation_failed e = HTTPException 500 (DetailStr ''Failed to generate lesson plan: '' e)"

definition generate_lesson_plan ::
  "sys \<Rightarrow> generate_env \<Rightarrow> LessonPlan list \<Rightarrow> LessonPlanRequest \<Rightarrow> User
     \<Rightarrow> (exn + LessonPlan) \<times> LessonPlan list" where
  "generate_lesson_plan S E plans request current_user =
     (case get_user_llm_chat S (ge_session E) (api_key current_user) of
        Inl e \<Rightarrow> (Inl (generation_failed e), plans)
      | Inr chat \<Rightarrow>
          (case ge_send E chat (generation_prompt request) of
             Inl e \<Rightarrow> (Inl (generation_failed e), plans)
           | Inr response \<Rightarrow>
               let lesson_plan =
                     \<lparr>lp_id = ge_uuid E, request_data = request, content = response,
                      generated_at = ge_now E\<rparr>
               in if ge_insert_ok E then (Inr lesson_plan, plans @ [lesson_plan])
                  else (Inl (generation_failed (Exception ''PyMongoError'')), plans)))"

section \<open>Rendering a lesson plan\<close>

text \<open>
  The story \<^verbatim>\<open>generate_lesson_plan_pdf\<close> hands to the document builder: paragraphs with
  their style, spacers and the table of details.
\<close>

datatype style =
    title_style
  | section_heading_style
  | subsection_heading_style
  | normal_style
  | bullet_style

datatype flowable =
    Paragraph string style
  | Spacer nat nat
  | Table "string list list"

text \<open>The bullet glyph U+2022, in UTF-8.\<close>

definition bullet_glyph :: string where
  "bullet_glyph = [CHR 0xE2, CHR 0x80, CHR 0xA2]"

text \<open>The body of the loop over the lines after a section heading (lines 343 to 357).\<close>

definition section_line :: "string \<Rightarrow> flowable list" where
  "section_line l =
     (let line = py_strip l
      in if line = [] then []
         else if (CHR ''('' \<in> set line \<and> py_contains ''minutes)'' line)
                 \<or> suffix ''minutes'' line
         then [Paragraph line subsection_heading_style]
         else if prefix ''- '' line
         then [Paragraph (bullet_glyph @ '' '' @ drop 2 line) bullet_style]
         else [Paragraph line normal_style, Spacer 1 6])"

text \<open>The body of the loop over the lines of a regular content block (lines 360 to 371).\<close>

definition block_line :: "string \<Rightarrow> flowable list" where
  "block_line l =
     (let line = py_strip l
      in if line = [] then []
         else if prefix ''- '' line
         then [Paragraph (bullet_glyph @ '' '' @ drop 2 line) bullet_style]
         else [Paragraph line normal_style, Spacer 1 6])"

text \<open>The body of the loop over the blocks of the content (lines 329 to 371).\<close>

definition render_section :: "string \<Rightarrow> flowable list" where
  "render_section sec =
     (let section = py_strip sec
      in if section = [] then []
         else
           (case py_split [nl] section of
              [] \<Rightarrow> []
            | l0 # rest \<Rightarrow>
                let first_line = py_strip l0
                in if py_isupper first_line \<and> length first_line < 100
                   then Paragraph first_line section_heading_style
                          # concat (map section_line rest)
                   else concat (map block_line (l0 # rest))))"

definition content_story :: "string \<Rightarrow> flowable list" where
  "content_story c = concat (map render_section (py_split [nl, nl] c))"

definition story :: "(int \<Rightarrow> string) \<Rightarrow> LessonPlan \<Rightarrow> flowable list" where
  "story strftime lesson_plan =
     [Paragraph ''LESSON PLAN'' title_style,
      Spacer 1 20,
      Table
        [[''Subject:'', subject_name (request_data lesson_plan)],
         [''Lecture Topic:'', lecture_topic (request_data lesson_plan)],
         [''Focus Topic:'',
            if str_truthy (focus_topic (request_data lesson_plan))
            then the (focus_topic (request_data lesson_plan)) else ''General Coverage''],
         [''Bloom's Taxonomy Level:'', blooms_taxonomy (request_data lesson_plan)],
         [''AQF Level:'', aqf_level (request_data lesson_plan)],
         [''Duration:'', lesson_duration (request_data lesson_plan)],
         [''Generated:'', strftime (generated_at lesson_plan)]],
      Spacer 1 30]
     @ content_story (content lesson_plan)"

text \<open>
  What one call of \<^verbatim>\<open>download_lesson_plan\<close> meets outside the code: whether the database
  answers, the name of the temporary file (\<open>None\<close> when creating it raises), the
  formatting of the timestamp and the document builder, which raises or gives the bytes it
  writes to the output path.
\<close>

record download_env =
  de_find_ok :: bool
  de_tmp_name :: "string option"
  de_strftime :: "int \<Rightarrow> string"
  de_build :: "flowable list \<Rightarrow> exn + string"

record FileResponse =
  fr_path :: string
  fr_media_type :: string
  fr_filename :: string

definition generate_lesson_plan_pdf ::
  "download_env \<Rightarrow> files \<Rightarrow> LessonPlan \<Rightarrow> string \<Rightarrow> (exn + unit) \<times> files" where
  "generate_lesson_plan_pdf E fs lesson_plan output_path =
     (case de_build E (story (de_strftime E) lesson_plan) of
        Inl e \<Rightarrow> (Inl e, fs)
      | Inr bytes \<Rightarrow> (Inr (), fs(output_path \<mapsto> bytes)))"

definition download_failed :: "exn \<Rightarrow> exn" where
  "download_failed e = HTTPException 500 (DetailStr ''Failed to generate PDF: '' e)"

definition download_lesson_plan ::
  "download_env \<Rightarrow> files \<Rightarrow> LessonPlan list \<Rightarrow> string \<Rightarrow> (exn + FileResponse) \<times> files" where
  "download_lesson_plan E fs plans lesson_plan_id =
     (if \<not> de_find_ok E then (Inl (download_failed (Exception ''PyMongoError'')), fs)
      else
        (case find (\<lambda>d. lp_id d = lesson_plan_id) plans of
           None \<Rightarrow>
             (Inl (download_failed (HTTPException 404 (Detail ''Lesson plan not found''))), fs)
         | Some lesson_plan \<Rightarrow>
             (case de_tmp_name E of
                None \<Rightarrow> (Inl (download_failed (Exception ''OSError'')), fs)
              | Some temp_pdf \<Rightarrow>
                  (case generate_lesson_plan_pdf E (fs(temp_pdf \<mapsto> [])) lesson_plan temp_pdf of
                     (Inl e, fs') \<Rightarrow> (Inl (download_failed e), fs')
                   | (Inr u, fs') \<Rightarrow>
                       (Inr \<lparr>fr_path = temp_pdf, fr_media_type = ''application/pdf'',
                             fr_filename =
                               ''lesson_plan_'' @ subject_name (request_data lesson_plan)
                               @ ''_'' @ take 8 lesson_plan_id @ ''.pdf''\<rparr>,
                        fs')))))"

section \<open>The answer of the LLM\<close>

text \<open>
  What the JSON object the LLM returned says: the strings of its \<^verbatim>\<open>lecture_topics\<close> array
  and the keys of its \<^verbatim>\<open>lecture_focus_mapping\<close> object (none when the field is absent or
  is not an object).
\<close>

definition answer_topics :: "(string \<times> json) list \<Rightarrow> string list" where
  "answer_topics kv =
     (case dict_get kv ''lecture_topics'' (JArr []) of
        JArr xs \<Rightarrow> List.map_filter as_str xs
      | _ \<Rightarrow> [])"

definition answer_keys :: "(string \<times> json) list \<Rightarrow> string list" where
  "answer_keys kv =
     (case dict_get kv ''lecture_focus_mapping'' (JObj []) of
        JObj m \<Rightarrow> map fst m
      | _ \<Rightarrow> [])"

section \<open>Example inputs\<close>

text \<open>
  Concrete inputs at which the theorems below are evaluated: a configuration with toy
  hash functions, two signups, an LLM that answers only to the system key, an upload whose
  pages hold only white space, a stored lesson plan, and three answers of the LLM with the
  values \<^verbatim>\<open>json.loads\<close> gives for them.
\<close>

definition example_sys :: sys where
  "example_sys =
     \<lparr>JWT_SECRET = ''secret'', EMERGENT_LLM_KEY = Some ''system-key'',
      sha256_hexdigest = (\<lambda>s. ''sha:'' @ s),
      hs256 = (\<lambda>k p. k @ p_user_id p @ p_email p)\<rparr>"

definition alice_call :: signup_call where
  "alice_call =
     \<lparr>sc_req = \<lparr>su_firstName = ''Alice'', su_lastName = ''A'', su_email = ''alice@uni.edu'',
                su_institution = ''Uni'', su_department = ''Bio'', su_password = ''pw-a'',
                su_newsletter = False\<rparr>,
      sc_uuid = ''u1'', sc_created = 1000, sc_now = 1000\<rparr>"

definition bob_call :: signup_call where
  "bob_call =
     \<lparr>sc_req = \<lparr>su_firstName = ''Bob'', su_lastName = ''B'', su_email = ''bob@uni.edu'',
                su_institution = ''Uni'', su_department = ''Chem'', su_password = ''pw-b'',
                su_newsletter = True\<rparr>,
      sc_uuid = ''u2'', sc_created = 2000, sc_now = 2000\<rparr>"

definition alice :: User where
  "alice = new_user example_sys alice_call"

definition system_only_send :: "LlmChat \<Rightarrow> string \<Rightarrow> exn + string" where
  "system_only_send chat msg =
     (if chat_api_key chat = ''system-key'' then Inr ''Hi'' else Inl (Exception ''Unauthorized''))"

definition scan_env :: upload_env where
  "scan_env =
     \<lparr>ue_tmp_name = Some ''/tmp/tmpscan.pdf'', ue_copy_ok = True,
      ue_pdf_reader = (\<lambda>bytes. Inr [Some ''  '', Some [nl], Some []]),
      ue_session = ''s1'', ue_send = (\<lambda>chat prompt. Inr ''{}''),
      ue_json_loads = (\<lambda>s. Some (JObj [])),
      ue_uuid = ''r1'', ue_now = 3000, ue_insert_ok = True\<rparr>"

definition scan_file :: UploadFile where
  "scan_file = \<lparr>up_filename = ''scan.pdf'', up_content = ''%PDF-1.4''\<rparr>"

definition example_plan :: LessonPlan where
  "example_plan =
     \<lparr>lp_id = ''plan-0001-abcd'',
      request_data =
        \<lparr>subject_name = ''Biology 101'', lecture_topic = ''Cells'', focus_topic = Some [],
         blooms_taxonomy = ''Apply'', aqf_level = ''AQF Level 7 - Bachelor Degree'',
         lesson_duration = ''1 hour''\<rparr>,
      content = ''LEARNING OBJECTIVES'' @ [nl] @ ''- Know X'',
      generated_at = 4000\<rparr>"

definition example_request :: LessonPlanRequest where
  "example_request =
     \<lparr>subject_name = ''Biology 101'', lecture_topic = ''Cells'', focus_topic = Some [],
      blooms_taxonomy = ''Apply'', aqf_level = ''AQF Level 7 - Bachelor Degree'',
      lesson_duration = ''1 hour''\<rparr>"

definition gen_env :: generate_env where
  "gen_env =
     \<lparr>ge_session = ''g1'', ge_send = system_only_send, ge_uuid = ''plan-0002-efgh'',
      ge_now = 5000, ge_insert_ok = True\<rparr>"

definition generated_plan :: LessonPlan where
  "generated_plan =
     \<lparr>lp_id = ''plan-0002-efgh'', request_data = example_request, content = ''Hi'',
      generated_at = 5000\<rparr>"

definition plan_env :: download_env where
  "plan_env =
     \<lparr>de_find_ok = True, de_tmp_name = Some ''/tmp/tmpplan.pdf'',
      de_strftime = (\<lambda>t. ''1970-01-01 01:06:40''),
      de_build = (\<lambda>flowables. Inr ''%PDF-1.4 lesson plan'')\<rparr>"

definition ill_typed_text :: string where
  "ill_typed_text =
     ''{\"subject_names\": [\"Biology 101\"], \"lecture_topics\": \"Cells\", \"lecture_focus_mapping\": \"n/a\"}''"

definition ill_typed_answer :: "(string \<times> json) list" where
  "ill_typed_answer =
     [(''subject_names'', JArr [JStr ''Biology 101'']),
      (''lecture_topics'', JStr ''Cells''),
      (''lecture_focus_mapping'', JStr ''n/a'')]"

definition lenient_json :: string where
  "lenient_json =
     ''{\"subject_names\": [\"Biology 101\"], \"lecture_topics\": [\"Cells\"], \"lecture_focus_mapping\": \"n/a\"}''"

definition lenient_text :: string where
  "lenient_text = ''```json'' @ [nl] @ lenient_json @ [nl] @ ''```''"

definition lenient_answer :: "(string \<times> json) list" where
  "lenient_answer =
     [(''subject_names'', JArr [JStr ''Biology 101'']),
      (''lecture_topics'', JArr [JStr ''Cells'']),
      (''lecture_focus_mapping'', JStr ''n/a'')]"

definition stray_text :: string where
  "stray_text =
     ''{\"subject_names\": [\"Biology 101\"], \"lecture_topics\": [], \"lecture_focus_mapping\": {\"Cells\": [\"Mitosis\"]}}''"

definition stray_answer :: "(string \<times> json) list" where
  "stray_answer =
     [(''subject_names'', JArr [JStr ''Biology 101'']),
      (''lecture_topics'', JArr []),
      (''lecture_focus_mapping'', JObj [(''Cells'', JArr [JStr ''Mitosis''])])]"

definition example_loads :: "string \<Rightarrow> json option" where
  "example_loads s =
     (if s = ill_typed_text then Some (JObj ill_typed_answer)
      else if s = lenient_json then Some (JObj lenient_answer)
      else if s = stray_text then Some (JObj stray_answer)
      else None)"

definition outline_env :: "string \<Rightarrow> upload_env" where
  "outline_env answer =
     \<lparr>ue_tmp_name = Some ''/tmp/tmpoutline.pdf'', ue_copy_ok = True,
      ue_pdf_reader = (\<lambda>bytes. Inr [Some ''Biology 101 outline'', None, Some '' '']),
      ue_session = ''s1'', ue_send = (\<lambda>chat prompt. Inr answer),
      ue_json_loads = example_loads,
      ue_uuid = ''r1'', ue_now = 3000, ue_insert_ok = True\<rparr>"

definition outline_file :: UploadFile where
  "outline_file = \<lparr>up_filename = ''Outline.PDF'', up_content = ''%PDF-1.7''\<rparr>"

definition stray_result :: PDFExtractionResult where
  "stray_result =
     \<lparr>per_id = ''r1'', filename = ''Outline.PDF'', subject_names = [''Biology 101''],
      lecture_topics = [], lecture_focus_mapping = [(''Cells'', [''Mitosis''])],
      extracted_at = 3000\<rparr>"

definition lenient_result :: PDFExtractionResult where
  "lenient_result =
     \<lparr>per_id = ''r1'', filename = ''Outline.PDF'', subject_names = [''Biology 101''],
      lecture_topics = [''Cells''], lecture_focus_mapping = [],
      extracted_at = 3000\<rparr>"

section \<open>Properties of the authentication scheme\<close>

lemma snd_run_signups_Cons:
  "snd (run_signups S users (c # cs)) = snd (run_signups S (snd (signup S users c)) cs)"
  by (simp split: prod.splits)

lemma fst_run_signups_Cons:
  "fst (run_signups S users (c # cs)) =
     fst (signup S users c) # fst (run_signups S (snd (signup S users c)) cs)"
  by (simp split: prod.splits)

lemma signup_fresh:
  "users (call_email c) = None \<Longrightarrow>
     signup S users c =
       (Inr \<lparr>success = True, token = create_jwt_token S (sc_now c) (new_user S c),
             user = user_response (new_user S c)\<rparr>,
        users(call_email c \<mapsto> new_user S c))"
  by (simp add: signup_def Let_def call_email_def new_user_def)

lemma signup_other:
  "e \<noteq> call_email c \<Longrightarrow> snd (signup S users c) e = users e"
  by (simp add: signup_def Let_def call_email_def new_user_def)

lemma run_signups_keeps:
  "e \<notin> set (map call_email cs) \<Longrightarrow> snd (run_signups S users cs) e = users e"
proof (induction cs arbitrary: users)
  case Nil
  then show ?case by simp
next
  case (Cons c cs)
  have "snd (run_signups S (snd (signup S users c)) cs) e = snd (signup S users c) e"
    using Cons.prems by (intro Cons.IH) simp
  also have "\<dots> = users e"
    using Cons.prems by (intro signup_other) auto
  finally show ?case
    by (simp only: snd_run_signups_Cons)
qed

lemma run_signups_registers:
  "c \<in> set cs \<Longrightarrow> distinct (map call_email cs)
     \<Longrightarrow> \<forall>d \<in> set cs. users (call_email d) = None
     \<Longrightarrow> snd (run_signups S users cs) (call_email c) = Some (new_user S c)"
proof (induction cs arbitrary: users)
  case Nil
  then show ?case by simp
next
  case (Cons d cs)
  define users' where "users' = users(call_email d \<mapsto> new_user S d)"
  have fresh: "users (call_email d) = None"
    using Cons.prems(3) by simp
  have s: "snd (signup S users d) = users'"
    by (simp add: signup_fresh [where users = users and c = d, OF fresh] users'_def)
  have run: "snd (run_signups S users (d # cs)) = snd (run_signups S users' cs)"
    by (simp only: snd_run_signups_Cons s)
  have notin: "call_email d \<notin> set (map call_email cs)"
    and dist: "distinct (map call_email cs)"
    using Cons.prems(2) by simp_all
  show ?case
  proof (cases "c = d")
    case True
    have "snd (run_signups S users' cs) (call_email d) = users' (call_email d)"
      using notin by (rule run_signups_keeps)
    then show ?thesis
      using run True by (simp add: users'_def)
  next
    case False
    then have in_cs: "c \<in> set cs"
      using Cons.prems(1) by simp
    have "\<forall>x \<in> set cs. users' (call_email x) = None"
    proof
      fix x assume x: "x \<in> set cs"
      then have "call_email x \<noteq> call_email d"
        using notin by (metis imageI list.set_map)
      then show "users' (call_email x) = None"
        using Cons.prems(3) x by (simp add: users'_def)
    qed
    then have "snd (run_signups S users' cs) (call_email c) = Some (new_user S c)"
      using Cons.IH [OF in_cs dist] by blast
    then show ?thesis
      using run by simp
  qed
qed

lemma run_signups_all_succeed:
  "distinct (map call_email cs)
     \<Longrightarrow> \<forall>d \<in> set cs. users (call_email d) = None
     \<Longrightarrow> list_all succeeded (fst (run_signups S users cs))"
proof (induction cs arbitrary: users)
  case Nil
  then show ?case by simp
next
  case (Cons d cs)
  define users' where "users' = users(call_email d \<mapsto> new_user S d)"
  have fresh: "users (call_email d) = None"
    using Cons.prems(2) by simp
  have s: "snd (signup S users d) = users'" and r: "succeeded (fst (signup S users d))"
    by (simp_all add: signup_fresh [where users = users and c = d, OF fresh] users'_def succeeded_def)
  have notin: "call_email d \<notin> set (map call_email cs)"
    and dist: "distinct (map call_email cs)"
    using Cons.prems(1) by simp_all
  have "\<forall>x \<in> set cs. users' (call_email x) = None"
  proof
    fix x assume x: "x \<in> set cs"
    then have "call_email x \<noteq> call_email d"
      using notin by (metis imageI list.set_map)
    then show "users' (call_email x) = None"
      using Cons.prems(2) x by (simp add: users'_def)
  qed
  then have "list_all succeeded (fst (run_signups S users' cs))"
    using Cons.IH [OF dist] by blast
  then show ?case
    using r by (simp add: fst_run_signups_Cons s del: run_signups.simps)
qed

lemma get_current_user_iff:
  "(get_current_user S users now t = Inr u) =
     (mac_valid S t \<and> now < p_exp (jwt_claims t) \<and> users (p_email (jwt_claims t)) = Some u)"
  by (auto simp: get_current_user_def verify_jwt_token_def jwt_decode_def mac_valid_def
           split: option.splits sum.splits jwt_error.splits if_splits)

text \<open>
  Claim C4. After any run of signups whose emails are pairwise distinct and not yet
  registered, every signup of the run has succeeded, and a login with the email and the
  password of any one of them succeeds; the token it returns, presented before it expires
  (24 hours after the login), is accepted by \<^verbatim>\<open>get_current_user\<close>, which returns the user
  that signup registered.
\<close>

theorem signup_login_authenticate:
  assumes "distinct (map call_email cs)"
    and "\<forall>d \<in> set cs. users (call_email d) = None"
    and "c \<in> set cs"
    and "now' < now + JWT_EXPIRATION_HOURS * 3600"
  shows "list_all succeeded (fst (run_signups S users cs)) \<and>
         (\<exists>r. login S (snd (run_signups S users cs)) now
                 \<lparr>li_email = su_email (sc_req c), li_password = su_password (sc_req c)\<rparr> = Inr r
              \<and> get_current_user S (snd (run_signups S users cs)) now' (token r)
                  = Inr (new_user S c))"
proof -
  let ?db = "snd (run_signups S users cs)"
  have reg: "?db (su_email (sc_req c)) = Some (new_user S c)"
    using run_signups_registers [OF assms(3) assms(1) assms(2), of S]
    by (simp add: call_email_def)
  have pw: "verify_password S (su_password (sc_req c)) (password_hash (new_user S c))"
    by (simp add: verify_password_def new_user_def hash_password_def)
  let ?t = "create_jwt_token S now (new_user S c)"
  have lg: "login S ?db now
              \<lparr>li_email = su_email (sc_req c), li_password = su_password (sc_req c)\<rparr>
            = Inr \<lparr>success = True, token = ?t, user = user_response (new_user S c)\<rparr>"
    using reg pw by (simp add: login_def)
  have "mac_valid S ?t"
    by (simp add: mac_valid_def create_jwt_token_def jwt_encode_def)
  moreover have "now' < p_exp (jwt_claims ?t)"
    using assms(4) by (simp add: create_jwt_token_def jwt_encode_def)
  moreover have "?db (p_email (jwt_claims ?t)) = Some (new_user S c)"
    using reg by (simp add: create_jwt_token_def jwt_encode_def new_user_def)
  ultimately have "get_current_user S ?db now' ?t = Inr (new_user S c)"
    by (simp add: get_current_user_iff)
  then show ?thesis
    using lg run_signups_all_succeed [OF assms(1) assms(2), of S] by simp
qed

theorem signup_login_authenticate_witness:
  "list_all succeeded (fst (run_signups example_sys Map.empty [alice_call, bob_call])) \<and>
   (\<exists>r. login example_sys (snd (run_signups example_sys Map.empty [alice_call, bob_call])) 5000
           \<lparr>li_email = ''bob@uni.edu'', li_password = ''pw-b''\<rparr> = Inr r
        \<and> get_current_user example_sys
            (snd (run_signups example_sys Map.empty [alice_call, bob_call])) 91399 (token r)
          = Inr (new_user example_sys bob_call))"
  using signup_login_authenticate
    [of "[alice_call, bob_call]" Map.empty bob_call 91399 5000 example_sys]
  by (simp add: call_email_def alice_call_def bob_call_def JWT_EXPIRATION_HOURS_def)

text \<open>
  Claim C5. In a state where the email of a signup request is already registered, the
  signup raises the 400 \<^verbatim>\<open>Email already registered\<close> and the user store, the existing
  record included, is left as it was.
\<close>

theorem signup_duplicate_email:
  "users (su_email (sc_req c)) = Some u \<Longrightarrow>
     signup S users c = (Inl (HTTPException 400 (Detail ''Email already registered'')), users)"
  by (simp add: signup_def)

theorem signup_duplicate_email_witness:
  "signup example_sys [''alice@uni.edu'' \<mapsto> alice] (alice_call\<lparr>sc_uuid := ''u9''\<rparr>)
     = (Inl (HTTPException 400 (Detail ''Email already registered'')),
        [''alice@uni.edu'' \<mapsto> alice])"
  using signup_duplicate_email
    [of "[''alice@uni.edu'' \<mapsto> alice]" "alice_call\<lparr>sc_uuid := ''u9''\<rparr>" alice example_sys]
  by (simp add: alice_call_def)

text \<open>
  Claim C9. \<^verbatim>\<open>get_current_user\<close> accepts a token exactly when its signature is the MAC of
  its claims under \<^verbatim>\<open>JWT_SECRET\<close>, its expiry lies after the clock and its email is a key
  of the user store; the user it returns is the record stored under that email now. The
  user id of the claims is not looked at: a token signed by the server resolves whatever
  id it carries. A record changed after the token was minted, as by attaching an API key,
  is returned as changed.
\<close>

theorem authenticate_accepts_iff:
  "(succeeded (get_current_user S users now t) =
      (mac_valid S t \<and> now < p_exp (jwt_claims t) \<and> p_email (jwt_claims t) \<in> dom users))
   \<and> ((get_current_user S users now t = Inr u) =
        (mac_valid S t \<and> now < p_exp (jwt_claims t)
         \<and> users (p_email (jwt_claims t)) = Some u))
   \<and> ((get_current_user S users now
          (jwt_encode S \<lparr>p_user_id = i, p_email = e, p_exp = x\<rparr> (JWT_SECRET S)) = Inr u) =
        (now < x \<and> users e = Some u))
   \<and> (get_current_user S users now t = Inr u \<longrightarrow>
        get_current_user S (users(p_email (jwt_claims t) \<mapsto> u\<lparr>api_key := Some k\<rparr>)) now t
          = Inr (u\<lparr>api_key := Some k\<rparr>))"
proof -
  have "succeeded (get_current_user S users now t) =
          (\<exists>v. get_current_user S users now t = Inr v)"
    by (cases "get_current_user S users now t") (simp_all add: succeeded_def)
  then have "succeeded (get_current_user S users now t) =
      (mac_valid S t \<and> now < p_exp (jwt_claims t) \<and> p_email (jwt_claims t) \<in> dom users)"
    by (auto simp: get_current_user_iff)
  then show ?thesis
    by (simp add: get_current_user_iff mac_valid_def jwt_encode_def)
qed

theorem authenticate_accepts_iff_witness:
  "get_current_user example_sys [''alice@uni.edu'' \<mapsto> alice] 2000
     (create_jwt_token example_sys 1000 alice) = Inr alice
   \<and> get_current_user example_sys [''alice@uni.edu'' \<mapsto> alice] 2000
       (jwt_encode example_sys
          \<lparr>p_user_id = ''not-u1'', p_email = ''alice@uni.edu'', p_exp = 87400\<rparr> ''secret'')
       = Inr alice
   \<and> get_current_user example_sys
       [''alice@uni.edu'' \<mapsto> alice\<lparr>api_key := Some ''user-key''\<rparr>] 2000
       (create_jwt_token example_sys 1000 alice) = Inr (alice\<lparr>api_key := Some ''user-key''\<rparr>)"
  using authenticate_accepts_iff
    [of example_sys "[''alice@uni.edu'' \<mapsto> alice]" 2000
        "create_jwt_token example_sys 1000 alice" alice "''not-u1''" "''alice@uni.edu''" 87400
        "''user-key''"]
  by (simp add: example_sys_def alice_def alice_call_def new_user_def create_jwt_token_def
        jwt_encode_def mac_valid_def JWT_EXPIRATION_HOURS_def)

text \<open>
  Claim C10. \<^verbatim>\<open>validate_api_key\<close> with the empty string as candidate sends its probe
  through a chat that holds the system key (here configured and non-empty); when the probe
  answers, the empty string is stored as the user's \<^verbatim>\<open>api_key\<close>. With that record the
  profile shows \<^verbatim>\<open>hasApiKey\<close> false, \<^verbatim>\<open>get_user_llm_chat\<close> gives a chat with the system
  key, and \<^verbatim>\<open>generate_lesson_plan\<close> does what it does for a user with no key: it sends
  its prompt through a chat that holds the system key, and stores and returns the plan made
  of the answer.
\<close>

theorem validate_empty_api_key:
  assumes "EMERGENT_LLM_KEY S = Some k" and "k \<noteq> []"
    and "users (email current_user) = Some u"
  shows "validate_api_key S send session users [] current_user =
           (case send (new_chat k session) ''Hello'' of
              Inl e \<Rightarrow> (Inl api_key_rejected, users)
            | Inr response \<Rightarrow>
                (Inr (True, ''API key validated and saved successfully''),
                 users(email current_user \<mapsto> u\<lparr>api_key := Some []\<rparr>)))
         \<and> hasApiKey (get_profile (u\<lparr>api_key := Some []\<rparr>)) = False
         \<and> get_user_llm_chat S session' (api_key (u\<lparr>api_key := Some []\<rparr>))
             = Inr (new_chat k session')
         \<and> generate_lesson_plan S E plans request (u\<lparr>api_key := Some []\<rparr>)
             = generate_lesson_plan S E plans request (u\<lparr>api_key := None\<rparr>)
         \<and> generate_lesson_plan S E plans request (u\<lparr>api_key := Some []\<rparr>) =
             (case ge_send E (new_chat k (ge_session E)) (generation_prompt request) of
                Inl e \<Rightarrow> (Inl (generation_failed e), plans)
              | Inr response \<Rightarrow>
                  if ge_insert_ok E
                  then (Inr \<lparr>lp_id = ge_uuid E, request_data = request, content = response,
                             generated_at = ge_now E\<rparr>,
                        plans @ [\<lparr>lp_id = ge_uuid E, request_data = request,
                                  content = response, generated_at = ge_now E\<rparr>])
                  else (Inl (generation_failed (Exception ''PyMongoError'')), plans))"
  using assms
  by (simp add: validate_api_key_def get_user_llm_chat_def get_llm_chat_def str_truthy_def
        get_profile_def user_response_def generate_lesson_plan_def Let_def
           split: sum.splits)

theorem validate_empty_api_key_witness:
  "validate_api_key example_sys system_only_send ''s1'' [''alice@uni.edu'' \<mapsto> alice] [] alice =
     (Inr (True, ''API key validated and saved successfully''),
      [''alice@uni.edu'' \<mapsto> alice\<lparr>api_key := Some []\<rparr>])
   \<and> hasApiKey (get_profile (alice\<lparr>api_key := Some []\<rparr>)) = False
   \<and> get_user_llm_chat example_sys ''s2'' (api_key (alice\<lparr>api_key := Some []\<rparr>))
       = Inr (new_chat ''system-key'' ''s2'')
   \<and> ge_send gen_env (new_chat ''system-key'' ''g1'') (generation_prompt example_request)
       = Inr ''Hi''
   \<and> ge_send gen_env (new_chat [] ''g1'') (generation_prompt example_request)
       = Inl (Exception ''Unauthorized'')
   \<and> generate_lesson_plan example_sys gen_env [] example_request
         (alice\<lparr>api_key := Some []\<rparr>)
       = (Inr generated_plan, [generated_plan])"
proof -
  have k: "EMERGENT_LLM_KEY example_sys = Some ''system-key''"
    by (simp add: example_sys_def)
  have u: "[''alice@uni.edu'' \<mapsto> alice] (email alice) = Some alice"
    by (simp add: alice_def new_user_def alice_call_def)
  have e: "email alice = ''alice@uni.edu''"
    by (simp add: alice_def new_user_def alice_call_def)
  have probe: "system_only_send (new_chat ''system-key'' ''s1'') ''Hello'' = Inr ''Hi''"
    by (simp add: system_only_send_def new_chat_def)
  have sends:
    "ge_send gen_env (new_chat ''system-key'' ''g1'') (generation_prompt example_request)
       = Inr ''Hi''"
    "ge_send gen_env (new_chat [] ''g1'') (generation_prompt example_request)
       = Inl (Exception ''Unauthorized'')"
    by (simp_all add: system_only_send_def new_chat_def gen_env_def)
  have fields: "ge_session gen_env = ''g1''" "ge_insert_ok gen_env"
    "ge_uuid gen_env = ''plan-0002-efgh''" "ge_now gen_env = 5000"
    by (simp_all add: gen_env_def)
  note t = validate_empty_api_key [where S = example_sys and k = "''system-key''"
      and users = "[''alice@uni.edu'' \<mapsto> alice]" and current_user = alice and u = alice
      and send = system_only_send and session = "''s1''"
      and session' = "''s2''" and E = gen_env and plans = "[]" and request = example_request,
      OF k _ u, unfolded probe fields sends e]
  have t': "''system-key'' \<noteq> []" by simp
  note r = t [OF t']
  note r1 = r [THEN conjunct1]
  note r2 = r [THEN conjunct2, THEN conjunct1]
  note r3 = r [THEN conjunct2, THEN conjunct2, THEN conjunct1]
  note r5 = r [THEN conjunct2, THEN conjunct2, THEN conjunct2, THEN conjunct2]
  show ?thesis
    using r1 r2 r3 r5 sends fields(2) by (simp add: generated_plan_def)
qed

section \<open>Properties of the upload and of the temporary files\<close>

lemma py_strip_Nil: "py_strip [] = []"
  by (simp add: py_strip_def)

lemma read_pages_blank:
  "\<forall>pg \<in> set pages. \<forall>t. pg = Some t \<longrightarrow> py_strip t = [] \<Longrightarrow> read_pages pages acc = acc"
  by (induction pages acc rule: read_pages.induct) auto

lemma upload_pdf_no_readable_text:
  assumes "suffix ''.pdf'' (py_lower (up_filename file))"
    and "ue_tmp_name E = Some p" and "ue_copy_ok E"
    and "ue_pdf_reader E (up_content file) = Inr pages"
    and "\<forall>pg \<in> set pages. \<forall>t. pg = Some t \<longrightarrow> py_strip t = []"
  shows "upload_pdf S E fs coll file current_user =
           (Inl (upload_failed no_readable_text), fs(p := None), coll)"
  using assms(1-4) read_pages_blank [OF assms(5), of "[]"]
  by (simp add: upload_pdf_def upload_body_def extract_text_from_pdf_def py_strip_Nil Let_def)

text \<open>
  Claim C1, evaluated. For an upload named \<^verbatim>\<open>scan.pdf\<close> whose three pages yield two
  blanks, a newline and the empty string, \<^verbatim>\<open>extract_text_from_pdf\<close> raises the 400
  \<^verbatim>\<open>no_readable_text\<close>, and the \<^verbatim>\<open>except Exception\<close> clause of \<^verbatim>\<open>upload_pdf\<close> answers
  with a 500 that wraps it. The lemma above gives the same answer for every upload whose
  pages hold only white space.
\<close>

theorem upload_pdf_scanned_is_500:
  "upload_pdf example_sys scan_env Map.empty [] scan_file alice =
     (Inl (HTTPException 500 (DetailStr ''Failed to process PDF: '' no_readable_text)),
      Map.empty, [])
   \<and> status_code (HTTPException 500 (DetailStr ''Failed to process PDF: '' no_readable_text))
       = 500
   \<and> status_code no_readable_text = 400"
  by (simp add: upload_pdf_def upload_body_def extract_text_from_pdf_def Let_def scan_env_def
        scan_file_def py_lower_def lower_char_def upper_letters_def lower_letters_def
        suffix_to_prefix py_strip_def is_space_def whitespace_def nl_def upload_failed_def
        no_readable_text_def)

lemma upload_pdf_files:
  "ue_copy_ok E \<Longrightarrow>
     fst (snd (upload_pdf S E fs coll file current_user)) =
       (if suffix ''.pdf'' (py_lower (up_filename file)) \<and> ue_tmp_name E \<noteq> None
        then fs(the (ue_tmp_name E) := None) else fs)"
  by (auto simp: upload_pdf_def Let_def split: option.splits prod.splits)

lemma download_serves_file:
  "fst (download_lesson_plan D fs plans i) = Inr resp
     \<Longrightarrow> fr_path resp \<in> dom (snd (download_lesson_plan D fs plans i))"
  by (auto simp: download_lesson_plan_def generate_lesson_plan_pdf_def
           split: if_splits option.splits sum.splits)

text \<open>
  Claim C3, as stated, fails: after a successful \<^verbatim>\<open>download_lesson_plan\<close> on an empty
  file system the temporary PDF is still there, with the bytes the builder wrote.
\<close>

theorem download_leaves_temp_file:
  "succeeded (fst (download_lesson_plan plan_env Map.empty [example_plan] ''plan-0001-abcd''))
   \<and> snd (download_lesson_plan plan_env Map.empty [example_plan] ''plan-0001-abcd'')
       ''/tmp/tmpplan.pdf'' = Some ''%PDF-1.4 lesson plan''"
  by (simp add: download_lesson_plan_def generate_lesson_plan_pdf_def plan_env_def
        example_plan_def succeeded_def)

text \<open>
  Claim C3, amended. When the copy of the upload into the temporary file completes,
  \<^verbatim>\<open>upload_pdf\<close> leaves the file system as it found it but for the temporary path, which
  is absent: on success and on every error alike. When \<^verbatim>\<open>download_lesson_plan\<close>
  succeeds, its temporary file is not removed: the file its response names exists.
\<close>

theorem temp_file_after_handler:
  "(ue_copy_ok E \<longrightarrow>
      fst (snd (upload_pdf S E fs coll file current_user)) =
        (if suffix ''.pdf'' (py_lower (up_filename file)) \<and> ue_tmp_name E \<noteq> None
         then fs(the (ue_tmp_name E) := None) else fs))
   \<and> (fst (download_lesson_plan D fs' plans i) = Inr resp \<longrightarrow>
        fr_path resp \<in> dom (snd (download_lesson_plan D fs' plans i)))"
  using upload_pdf_files download_serves_file by blast

theorem temp_file_after_handler_witness:
  "fst (snd (upload_pdf example_sys (outline_env lenient_text) Map.empty [] outline_file alice))
     = Map.empty
   \<and> fst (snd (upload_pdf example_sys scan_env Map.empty [] scan_file alice)) = Map.empty
   \<and> ''/tmp/tmpplan.pdf''
       \<in> dom (snd (download_lesson_plan plan_env Map.empty [example_plan] ''plan-0001-abcd''))"
  using temp_file_after_handler
      [of "outline_env lenient_text" example_sys Map.empty "[]" outline_file alice
          plan_env Map.empty "[example_plan]" "''plan-0001-abcd''"
          "\<lparr>fr_path = ''/tmp/tmpplan.pdf'', fr_media_type = ''application/pdf'',
            fr_filename = ''lesson_plan_Biology 101_plan-000.pdf''\<rparr>"]
    temp_file_after_handler
      [of scan_env example_sys Map.empty "[]" scan_file alice
          plan_env Map.empty "[example_plan]" "''plan-0001-abcd''"
          "\<lparr>fr_path = ''/tmp/tmpplan.pdf'', fr_media_type = ''application/pdf'',
            fr_filename = ''lesson_plan_Biology 101_plan-000.pdf''\<rparr>"]
  by (simp add: outline_env_def scan_env_def plan_env_def example_plan_def outline_file_def
        scan_file_def py_lower_def lower_char_def upper_letters_def lower_letters_def
        suffix_to_prefix download_lesson_plan_def generate_lesson_plan_pdf_def)

section \<open>Properties of the curriculum extraction\<close>

lemma those_as_str:
  "those (map as_str ys) = Some xs \<Longrightarrow> xs = List.map_filter as_str ys \<and> length xs = length ys"
proof (induction ys arbitrary: xs)
  case Nil
  then show ?case by (simp add: List.map_filter_simps)
next
  case (Cons y ys)
  then show ?case
    by (cases "as_str y"; cases "those (map as_str ys)")
       (auto simp: List.map_filter_simps)
qed

lemma validate_str_list_Some:
  "validate_str_list v = Some xs \<Longrightarrow>
     \<exists>ys. v = JArr ys \<and> xs = List.map_filter as_str ys \<and> length xs = length ys"
  by (cases v) (auto dest: those_as_str)

lemma validate_str_list_truthy:
  "validate_str_list v = Some xs \<Longrightarrow> truthy v = (xs \<noteq> [])"
  by (auto dest!: validate_str_list_Some)

lemma those_keys:
  "those (map (\<lambda>(k, v). map_option (Pair k) (f v)) kv) = Some r \<Longrightarrow> map fst r = map fst kv"
proof (induction kv arbitrary: r)
  case Nil
  then show ?case by simp
next
  case (Cons a kv)
  obtain k v where a: "a = (k, v)" by (cases a)
  show ?case
    using Cons a
    by (cases "f v"; cases "those (map (\<lambda>(k, v). map_option (Pair k) (f v)) kv)") auto
qed

lemma validate_mapping_keys:
  "validate_mapping v = Some r \<Longrightarrow> \<exists>m. v = JObj m \<and> map fst r = map fst m"
  by (cases v) (auto dest: those_keys)

lemma process_response_JObj:
  "ue_json_loads E (clean_response response) = Some (JObj kv) \<Longrightarrow>
   process_response E fname coll response =
     (if \<not> (truthy (dict_get kv ''subject_names'' (JArr []))
             \<or> truthy (dict_get kv ''lecture_topics'' (JArr [])))
      then (Inl (HTTPException 400 (Detail ''Could not extract meaningful data from PDF'')), coll)
      else
        (case validate_str_list (dict_get kv ''subject_names'' (JArr [])) of
           None \<Rightarrow> (Inl (Exception ''ValidationError''), coll)
         | Some a \<Rightarrow>
             (case validate_str_list (dict_get kv ''lecture_topics'' (JArr [])) of
                None \<Rightarrow> (Inl (Exception ''ValidationError''), coll)
              | Some b \<Rightarrow>
                  (case validate_mapping
                          (if \<not> is_dict (dict_get kv ''lecture_focus_mapping'' (JObj []))
                           then JObj []
                           else dict_get kv ''lecture_focus_mapping'' (JObj [])) of
                     None \<Rightarrow> (Inl (Exception ''ValidationError''), coll)
                   | Some m \<Rightarrow>
                       if ue_insert_ok E
                       then (Inr \<lparr>per_id = ue_uuid E, filename = fname, subject_names = a,
                                  lecture_topics = b, lecture_focus_mapping = m,
                                  extracted_at = ue_now E\<rparr>,
                             coll @ [\<lparr>per_id = ue_uuid E, filename = fname,
                                      subject_names = a, lecture_topics = b,
                                      lecture_focus_mapping = m, extracted_at = ue_now E\<rparr>])
                       else (Inl (Exception ''PyMongoError''), coll)))))"
  by (simp add: process_response_def Let_def split: option.splits)

lemma process_response_Inr:
  assumes "process_response E fname coll response = (Inr r, coll')"
  shows "coll' = coll @ [r] \<and>
         (\<exists>kv. ue_json_loads E (clean_response response) = Some (JObj kv)
            \<and> validate_str_list (dict_get kv ''lecture_topics'' (JArr []))
                = Some (lecture_topics r)
            \<and> validate_mapping
                (if \<not> is_dict (dict_get kv ''lecture_focus_mapping'' (JObj [])) then JObj []
                 else dict_get kv ''lecture_focus_mapping'' (JObj []))
                = Some (lecture_focus_mapping r))"
proof -
  obtain v where v: "ue_json_loads E (clean_response response) = Some v"
    using assms by (cases "ue_json_loads E (clean_response response)")
      (simp_all add: process_response_def)
  obtain kv where kv: "ue_json_loads E (clean_response response) = Some (JObj kv)"
    using assms v by (cases v) (simp_all add: process_response_def)
  define sn where "sn = validate_str_list (dict_get kv ''subject_names'' (JArr []))"
  define lt where "lt = validate_str_list (dict_get kv ''lecture_topics'' (JArr []))"
  define fm where "fm = validate_mapping
      (if \<not> is_dict (dict_get kv ''lecture_focus_mapping'' (JObj [])) then JObj []
       else dict_get kv ''lecture_focus_mapping'' (JObj []))"
  note eq = assms [unfolded process_response_JObj [OF kv], folded sn_def lt_def fm_def]
  obtain a where a: "sn = Some a"
    using eq by (cases sn) (simp_all split: if_splits)
  obtain b where b: "lt = Some b"
    using eq a by (cases lt) (simp_all split: if_splits)
  obtain m where m: "fm = Some m"
    using eq a b by (cases fm) (simp_all split: if_splits)
  have "lecture_topics r = b \<and> lecture_focus_mapping r = m \<and> coll' = coll @ [r]"
    using eq a b m by (auto split: if_splits)
  then show ?thesis
    using kv b m by (auto simp: lt_def fm_def)
qed

lemma upload_body_Inr:
  assumes "upload_body S E fs coll fname p current_user = (Inr r, coll')"
  shows "\<exists>pdf_text chat response.
           extract_text_from_pdf (ue_pdf_reader E) fs p = Inr pdf_text
           \<and> get_user_llm_chat S (ue_session E) (api_key current_user) = Inr chat
           \<and> ue_send E chat (extraction_prompt pdf_text) = Inr response
           \<and> process_response E fname coll response = (Inr r, coll')"
proof -
  obtain pdf_text where t: "extract_text_from_pdf (ue_pdf_reader E) fs p = Inr pdf_text"
    using assms by (cases "extract_text_from_pdf (ue_pdf_reader E) fs p")
      (simp_all add: upload_body_def)
  have ne: "py_strip pdf_text \<noteq> []"
    using assms t by (auto simp: upload_body_def)
  obtain chat where c: "get_user_llm_chat S (ue_session E) (api_key current_user) = Inr chat"
    using assms t ne by (cases "get_user_llm_chat S (ue_session E) (api_key current_user)")
      (simp_all add: upload_body_def)
  obtain response where s: "ue_send E chat (extraction_prompt pdf_text) = Inr response"
    using assms t ne c by (cases "ue_send E chat (extraction_prompt pdf_text)")
      (simp_all add: upload_body_def)
  have "process_response E fname coll response = (Inr r, coll')"
    using assms t ne c s by (simp add: upload_body_def)
  then show ?thesis
    using t c s by blast
qed

lemma upload_pdf_Inr:
  assumes "upload_pdf S E fs coll file current_user = (Inr r, fs', coll')"
  shows "\<exists>p. ue_tmp_name E = Some p
           \<and> upload_body S E (fs(p \<mapsto> up_content file)) coll (up_filename file) p current_user
               = (Inr r, coll')"
proof -
  have pdf: "suffix ''.pdf'' (py_lower (up_filename file))"
    using assms by (auto simp: upload_pdf_def split: if_splits)
  obtain p where p: "ue_tmp_name E = Some p"
    using assms pdf by (cases "ue_tmp_name E") (simp_all add: upload_pdf_def)
  have ok: "ue_copy_ok E"
    using assms pdf p by (auto simp: upload_pdf_def split: if_splits)
  obtain x c where b: "upload_body S E (fs(p \<mapsto> up_content file)) coll (up_filename file) p
                         current_user = (x, c)"
    by (cases "upload_body S E (fs(p \<mapsto> up_content file)) coll (up_filename file) p
                 current_user")
  have "x = Inr r \<and> c = coll'"
    using assms pdf p ok b by (cases x) (simp_all add: upload_pdf_def Let_def)
  then show ?thesis
    using b p by blast
qed

lemma clean_ill_typed: "clean_response ill_typed_text = ill_typed_text"
  by (simp add: clean_response_def ill_typed_text_def py_strip_def is_space_def whitespace_def)

lemma clean_stray: "clean_response stray_text = stray_text"
  by (simp add: clean_response_def stray_text_def py_strip_def is_space_def whitespace_def)

lemma clean_lenient: "clean_response lenient_text = lenient_json"
  by (simp add: clean_response_def lenient_text_def lenient_json_def py_strip_def is_space_def
        whitespace_def nl_def)

lemma loads_ill_typed: "example_loads ill_typed_text = Some (JObj ill_typed_answer)"
  by (simp add: example_loads_def)

lemma loads_lenient: "example_loads lenient_json = Some (JObj lenient_answer)"
  by (simp add: example_loads_def ill_typed_text_def lenient_json_def)

lemma loads_stray: "example_loads stray_text = Some (JObj stray_answer)"
  by (simp add: example_loads_def ill_typed_text_def lenient_json_def stray_text_def)

lemma outline_env_fields:
  "ue_json_loads (outline_env a) = example_loads"
  "ue_insert_ok (outline_env a)"
  "ue_uuid (outline_env a) = ''r1''"
  "ue_now (outline_env a) = 3000"
  "ue_send (outline_env a) = (\<lambda>chat prompt. Inr a)"
  by (simp_all add: outline_env_def)

lemma outline_upload:
  "upload_pdf example_sys (outline_env answer) Map.empty [] outline_file alice =
     (case process_response (outline_env answer) ''Outline.PDF'' [] answer of
        (r, c) \<Rightarrow> ((case r of Inl e \<Rightarrow> Inl (upload_failed e) | Inr x \<Rightarrow> Inr x), Map.empty, c))"
  by (simp add: upload_pdf_def upload_body_def extract_text_from_pdf_def Let_def
        outline_env_def outline_file_def py_lower_def lower_char_def upper_letters_def
        lower_letters_def suffix_to_prefix py_strip_def is_space_def whitespace_def nl_def
        get_user_llm_chat_def get_llm_chat_def str_truthy_def example_sys_def alice_def
        new_user_def)

lemma stray_upload:
  "upload_pdf example_sys (outline_env stray_text) Map.empty [] outline_file alice =
     (Inr stray_result, Map.empty, [stray_result])"
  by (simp add: outline_upload
        process_response_JObj [of "outline_env stray_text" stray_text stray_answer]
        clean_stray loads_stray outline_env_fields stray_answer_def dict_get_def
        stray_result_def)

lemma outline_text:
  "extract_text_from_pdf (ue_pdf_reader (outline_env a))
     [''/tmp/tmpoutline.pdf'' \<mapsto> up_content outline_file] ''/tmp/tmpoutline.pdf''
   = Inr (''Biology 101 outline'' @ [nl])"
  by (simp add: extract_text_from_pdf_def outline_env_def Let_def py_strip_def is_space_def
        whitespace_def nl_def)

text \<open>
  Claim C6, as stated, fails: the answer parses as a JSON object whose
  \<^verbatim>\<open>lecture_focus_mapping\<close> is a string and whose \<^verbatim>\<open>subject_names\<close> is a non-empty array,
  the database takes inserts, and yet the extraction raises: \<^verbatim>\<open>lecture_topics\<close> is a
  string, which the \<^verbatim>\<open>PDFExtractionResult\<close> model refuses.
\<close>

theorem ill_typed_topics_fail:
  "ue_json_loads (outline_env ill_typed_text) (clean_response ill_typed_text)
     = Some (JObj ill_typed_answer)
   \<and> map_of ill_typed_answer ''lecture_focus_mapping'' = Some (JStr ''n/a'')
   \<and> \<not> is_dict (JStr ''n/a'')
   \<and> dict_get ill_typed_answer ''subject_names'' (JArr []) = JArr [JStr ''Biology 101'']
   \<and> ue_insert_ok (outline_env ill_typed_text)
   \<and> process_response (outline_env ill_typed_text) ''Outline.PDF'' [] ill_typed_text
       = (Inl (Exception ''ValidationError''), [])"
  by (simp add: process_response_JObj [of "outline_env ill_typed_text" ill_typed_text
                  ill_typed_answer]
        clean_ill_typed loads_ill_typed outline_env_fields ill_typed_answer_def dict_get_def)

text \<open>
  Claim C6, amended. When the answer parses as a JSON object in which
  \<^verbatim>\<open>lecture_focus_mapping\<close> is present and is not an object, \<^verbatim>\<open>subject_names\<close> and
  \<^verbatim>\<open>lecture_topics\<close> are each absent or an array of strings, one of the two is not empty,
  and the database takes the insert, the extraction returns and stores the result with
  those two lists and the empty mapping.
\<close>

theorem non_object_mapping_is_lenient:
  assumes "ue_json_loads E (clean_response response) = Some (JObj kv)"
    and "map_of kv ''lecture_focus_mapping'' = Some m" and "\<not> is_dict m"
    and "validate_str_list (dict_get kv ''subject_names'' (JArr [])) = Some sn"
    and "validate_str_list (dict_get kv ''lecture_topics'' (JArr [])) = Some lt"
    and "sn \<noteq> [] \<or> lt \<noteq> []"
    and "ue_insert_ok E"
  shows "process_response E fname coll response =
           (Inr \<lparr>per_id = ue_uuid E, filename = fname, subject_names = sn,
                 lecture_topics = lt, lecture_focus_mapping = [], extracted_at = ue_now E\<rparr>,
            coll @ [\<lparr>per_id = ue_uuid E, filename = fname, subject_names = sn,
                     lecture_topics = lt, lecture_focus_mapping = [],
                     extracted_at = ue_now E\<rparr>])"
proof -
  have m: "dict_get kv ''lecture_focus_mapping'' (JObj []) = m"
    using assms(2) by (simp add: dict_get_def)
  have t: "truthy (dict_get kv ''subject_names'' (JArr []))
           \<or> truthy (dict_get kv ''lecture_topics'' (JArr []))"
    using assms(6) validate_str_list_truthy [OF assms(4)] validate_str_list_truthy [OF assms(5)]
    by simp
  show ?thesis
    using t assms(3,4,5,7) by (simp add: process_response_JObj [OF assms(1)] m)
qed

theorem non_object_mapping_is_lenient_witness:
  "process_response (outline_env lenient_text) ''Outline.PDF'' [] lenient_text =
     (Inr lenient_result, [lenient_result])"
  using non_object_mapping_is_lenient
    [of "outline_env lenient_text" lenient_text lenient_answer "JStr ''n/a''"
        "[''Biology 101'']" "[''Cells'']" "''Outline.PDF''" "[]"]
  by (simp add: clean_lenient loads_lenient outline_env_fields lenient_answer_def dict_get_def
        lenient_result_def)

text \<open>
  Claim C7, as stated, fails: \<^verbatim>\<open>upload_pdf\<close> succeeds and stores a result whose mapping
  has the key \<^verbatim>\<open>Cells\<close> while its \<^verbatim>\<open>lecture_topics\<close> is empty.
\<close>

theorem stray_mapping_key_is_stored:
  "upload_pdf example_sys (outline_env stray_text) Map.empty [] outline_file alice =
     (Inr stray_result, Map.empty, [stray_result])
   \<and> \<not> set (map fst (lecture_focus_mapping stray_result)) \<subseteq> set (lecture_topics stray_result)"
  by (simp add: outline_upload
        process_response_JObj [of "outline_env stray_text" stray_text stray_answer]
        clean_stray loads_stray outline_env_fields stray_answer_def dict_get_def
        stray_result_def)

text \<open>
  Claim C7, amended. A successful \<^verbatim>\<open>upload_pdf\<close> appends the result it returns to the
  collection; its \<^verbatim>\<open>lecture_topics\<close> and the keys of its mapping are those of the JSON
  object the LLM answered with in this call (the answer to the extraction prompt built
  from the text of the upload, sent through the chat of the current user), so the keys are
  among the topics exactly when that holds of the answer. The code does not compare them.
\<close>

theorem upload_pdf_result_mirrors_answer:
  assumes "upload_pdf S E fs coll file current_user = (Inr r, fs', coll')"
  shows "coll' = coll @ [r] \<and>
         (\<exists>p pdf_text chat response kv.
            ue_tmp_name E = Some p
            \<and> extract_text_from_pdf (ue_pdf_reader E) (fs(p \<mapsto> up_content file)) p
                = Inr pdf_text
            \<and> get_user_llm_chat S (ue_session E) (api_key current_user) = Inr chat
            \<and> ue_send E chat (extraction_prompt pdf_text) = Inr response
            \<and> ue_json_loads E (clean_response response) = Some (JObj kv)
            \<and> lecture_topics r = answer_topics kv
            \<and> map fst (lecture_focus_mapping r) = answer_keys kv
            \<and> ((set (map fst (lecture_focus_mapping r)) \<subseteq> set (lecture_topics r))
                = (set (answer_keys kv) \<subseteq> set (answer_topics kv))))"
proof -
  obtain p where p: "ue_tmp_name E = Some p"
    and body: "upload_body S E (fs(p \<mapsto> up_content file)) coll (up_filename file) p
                 current_user = (Inr r, coll')"
    using upload_pdf_Inr [OF assms] by blast
  obtain pdf_text chat response
    where t: "extract_text_from_pdf (ue_pdf_reader E) (fs(p \<mapsto> up_content file)) p
                = Inr pdf_text"
      and ch: "get_user_llm_chat S (ue_session E) (api_key current_user) = Inr chat"
      and s: "ue_send E chat (extraction_prompt pdf_text) = Inr response"
      and pr: "process_response E (up_filename file) coll response = (Inr r, coll')"
    using upload_body_Inr [OF body] by blast
  obtain kv where c: "coll' = coll @ [r]"
    and kv: "ue_json_loads E (clean_response response) = Some (JObj kv)"
    and lt: "validate_str_list (dict_get kv ''lecture_topics'' (JArr []))
               = Some (lecture_topics r)"
    and fm: "validate_mapping
               (if \<not> is_dict (dict_get kv ''lecture_focus_mapping'' (JObj [])) then JObj []
                else dict_get kv ''lecture_focus_mapping'' (JObj []))
               = Some (lecture_focus_mapping r)"
    using process_response_Inr [OF pr] by blast
  have topics: "lecture_topics r = answer_topics kv"
    using validate_str_list_Some [OF lt] by (auto simp: answer_topics_def)
  have keys: "map fst (lecture_focus_mapping r) = answer_keys kv"
  proof (cases "dict_get kv ''lecture_focus_mapping'' (JObj [])")
    case (JObj m)
    then show ?thesis
      using validate_mapping_keys [OF fm] by (auto simp: answer_keys_def)
  qed (use fm in \<open>auto simp: answer_keys_def\<close>)
  have "ue_tmp_name E = Some p
        \<and> extract_text_from_pdf (ue_pdf_reader E) (fs(p \<mapsto> up_content file)) p = Inr pdf_text
        \<and> get_user_llm_chat S (ue_session E) (api_key current_user) = Inr chat
        \<and> ue_send E chat (extraction_prompt pdf_text) = Inr response
        \<and> ue_json_loads E (clean_response response) = Some (JObj kv)
        \<and> lecture_topics r = answer_topics kv
        \<and> map fst (lecture_focus_mapping r) = answer_keys kv
        \<and> ((set (map fst (lecture_focus_mapping r)) \<subseteq> set (lecture_topics r))
            = (set (answer_keys kv) \<subseteq> set (answer_topics kv)))"
    using p t ch s kv topics keys by simp
  then show ?thesis
    using c by blast
qed

theorem upload_pdf_result_mirrors_answer_witness:
  "map fst (lecture_focus_mapping stray_result) = [''Cells'']
   \<and> lecture_topics stray_result = []
   \<and> answer_keys stray_answer = [''Cells'']
   \<and> answer_topics stray_answer = []
   \<and> extract_text_from_pdf (ue_pdf_reader (outline_env stray_text))
       [''/tmp/tmpoutline.pdf'' \<mapsto> up_content outline_file] ''/tmp/tmpoutline.pdf''
       = Inr (''Biology 101 outline'' @ [nl])
   \<and> ue_send (outline_env stray_text) (new_chat ''system-key'' ''s1'')
       (extraction_prompt (''Biology 101 outline'' @ [nl])) = Inr stray_text
   \<and> ue_json_loads (outline_env stray_text) (clean_response stray_text)
       = Some (JObj stray_answer)
   \<and> [stray_result] = [] @ [stray_result]
   \<and> (\<exists>p pdf_text chat response kv.
        ue_tmp_name (outline_env stray_text) = Some p
        \<and> extract_text_from_pdf (ue_pdf_reader (outline_env stray_text))
            [p \<mapsto> up_content outline_file] p = Inr pdf_text
        \<and> get_user_llm_chat example_sys (ue_session (outline_env stray_text)) (api_key alice)
            = Inr chat
        \<and> ue_send (outline_env stray_text) chat (extraction_prompt pdf_text) = Inr response
        \<and> ue_json_loads (outline_env stray_text) (clean_response response) = Some (JObj kv)
        \<and> lecture_topics stray_result = answer_topics kv
        \<and> map fst (lecture_focus_mapping stray_result) = answer_keys kv
        \<and> ((set (map fst (lecture_focus_mapping stray_result))
               \<subseteq> set (lecture_topics stray_result))
            = (set (answer_keys kv) \<subseteq> set (answer_topics kv))))"
  using upload_pdf_result_mirrors_answer [OF stray_upload]
  by (simp add: stray_result_def stray_answer_def answer_keys_def answer_topics_def
        dict_get_def List.map_filter_simps outline_env_fields clean_stray loads_stray
        outline_text)

section \<open>Properties of the renderer\<close>

lemma section_line_subsection:
  assumes "py_strip l \<noteq> []"
    and "(CHR ''('' \<in> set (py_strip l) \<and> py_contains ''minutes)'' (py_strip l))
         \<or> suffix ''minutes'' (py_strip l)"
  shows "section_line l = [Paragraph (py_strip l) subsection_heading_style]"
  using assms by (simp add: section_line_def Let_def)

lemma block_line_no_subsection:
  "Paragraph x subsection_heading_style \<notin> set (block_line l)"
  by (simp add: block_line_def Let_def)

text \<open>
  Claim C2, evaluated. Content that is the one line \<^verbatim>\<open>Introduction/Hook (10 minutes)\<close>
  is a block whose first line is not upper case: the line is rendered in the normal style,
  followed by a spacer. Under a section heading the same line gets the subsection style.
  In the layout the generation prompt asks for, where a blank line comes before each timed
  phase, the phase line is again a plain paragraph.
  By the two lemmas above this is so for every line: \<^verbatim>\<open>section_line\<close> gives the subsection
  style to each line of the claim's form, \<^verbatim>\<open>block_line\<close> to none.
\<close>

theorem hook_line_in_plain_block:
  "content_story ''Introduction/Hook (10 minutes)'' =
     [Paragraph ''Introduction/Hook (10 minutes)'' normal_style, Spacer 1 6]
   \<and> content_story (''LESSON STRUCTURE'' @ [nl] @ ''Introduction/Hook (10 minutes)'') =
       [Paragraph ''LESSON STRUCTURE'' section_heading_style,
        Paragraph ''Introduction/Hook (10 minutes)'' subsection_heading_style]
   \<and> content_story (''LESSON STRUCTURE (1 hour)'' @ [nl, nl]
                      @ ''Introduction/Hook (10 minutes)'' @ [nl] @ ''- Engage students'') =
       [Paragraph ''LESSON STRUCTURE (1 hour)'' normal_style, Spacer 1 6,
        Paragraph ''Introduction/Hook (10 minutes)'' normal_style, Spacer 1 6,
        Paragraph (bullet_glyph @ '' Engage students'') bullet_style]"
  by (simp add: content_story_def render_section_def block_line_def section_line_def Let_def
        py_strip_def is_space_def whitespace_def nl_def py_isupper_def upper_letters_def
        lower_letters_def suffix_to_prefix)

end
